theory Spec2Isabelle
  imports Complex_Main
begin

section \<open>K\"oppen climate classification from monthly normals\<close>

text \<open>
  This theory embeds \<^verbatim>\<open>calculate_koppen_climate_from_normals\<close> of
  \<^verbatim>\<open>climate_classifier.py\<close> and the completeness guard of
  \<^verbatim>\<open>update_markers\<close> in \<^verbatim>\<open>meteostat_functions.py\<close>.

  Numbers. The columns of the pandas DataFrame hold float64 values. They are modelled as
  exact rationals, with \<open>None\<close> for NaN (a missing value), so the literals \<^verbatim>\<open>0.7\<close> and
  \<^verbatim>\<open>0.04\<close> are \<open>7/10\<close> and \<open>1/25\<close> and no rounding takes place. The \<^verbatim>\<open>isotherm\<close>
  argument is annotated \<^verbatim>\<open>int\<close> in the source, which Python does not enforce; it is a
  rational here, and every integer is one.

  What this leaves out. The program rounds every sum, mean and product to float64, in the
  order in which pandas and NumPy add. Minima, maxima and comparisons are exact on floats,
  so the structure of the decision chain is the program's; the numeric value of a sum, a
  mean or the precipitation threshold is the exact one here and may differ from the
  program's in the last place, which can move a record that lies on a boundary of a test
  to its other side. No theorem below is about the rounded value of the threshold.
\<close>

subsection \<open>The data frame\<close>

type_synonym num = "rat option"

text \<open>
  A row of the frame: its index label (the month number) and the two columns the
  classifier reads. The record is extensible, so a row may carry any further columns
  (\<^verbatim>\<open>tmin\<close>, \<^verbatim>\<open>tmax\<close>, \<^verbatim>\<open>tsun\<close>, ...) in its extension.
\<close>

record row =
  idx :: int
  tavg :: num
  prcp :: num

type_synonym 'a frame = "'a row_scheme list"

subsection \<open>The pandas and NumPy operations used\<close>

text \<open>The values of a column that are not NaN, in order.\<close>

definition present :: "num list \<Rightarrow> rat list" where
  "present xs = map the (filter (\<lambda>x. x \<noteq> None) xs)"

text \<open>
  \<^verbatim>\<open>Series.min()\<close>, \<^verbatim>\<open>.max()\<close> and \<^verbatim>\<open>.mean()\<close> skip NaN and give NaN when nothing is left;
  \<^verbatim>\<open>Series.sum()\<close> skips NaN and gives 0 when nothing is left.
\<close>

definition series_min :: "num list \<Rightarrow> num" where
  "series_min xs = (let vs = present xs in if vs = [] then None else Some (Min (set vs)))"

definition series_max :: "num list \<Rightarrow> num" where
  "series_max xs = (let vs = present xs in if vs = [] then None else Some (Max (set vs)))"

definition series_mean :: "num list \<Rightarrow> num" where
  "series_mean xs =
     (let vs = present xs in if vs = [] then None else Some (sum_list vs / of_nat (length vs)))"

definition series_sum :: "num list \<Rightarrow> num" where
  "series_sum xs = Some (sum_list (present xs))"

text \<open>\<^verbatim>\<open>Series.gt(c).sum()\<close>: the number of entries greater than \<open>c\<close>; NaN is not.\<close>

definition series_gt_count :: "num list \<Rightarrow> rat \<Rightarrow> nat" where
  "series_gt_count xs c = length (filter (\<lambda>v. c < v) (present xs))"

text \<open>Arithmetic propagates NaN; every comparison with NaN is false.\<close>

definition nan_add :: "num \<Rightarrow> num \<Rightarrow> num" where
  "nan_add a b = (case a of None \<Rightarrow> None | Some x \<Rightarrow> (case b of None \<Rightarrow> None | Some y \<Rightarrow> Some (x + y)))"

definition nan_sub :: "num \<Rightarrow> num \<Rightarrow> num" where
  "nan_sub a b = (case a of None \<Rightarrow> None | Some x \<Rightarrow> (case b of None \<Rightarrow> None | Some y \<Rightarrow> Some (x - y)))"

definition nan_mul :: "num \<Rightarrow> num \<Rightarrow> num" where
  "nan_mul a b = (case a of None \<Rightarrow> None | Some x \<Rightarrow> (case b of None \<Rightarrow> None | Some y \<Rightarrow> Some (x * y)))"

definition nan_half :: "num \<Rightarrow> num" where
  "nan_half a = (case a of None \<Rightarrow> None | Some x \<Rightarrow> Some (x / 2))"

definition nan_ge :: "num \<Rightarrow> num \<Rightarrow> bool" where
  "nan_ge a b = (case a of None \<Rightarrow> False | Some x \<Rightarrow> (case b of None \<Rightarrow> False | Some y \<Rightarrow> y \<le> x))"

definition nan_lt :: "num \<Rightarrow> num \<Rightarrow> bool" where
  "nan_lt a b = (case a of None \<Rightarrow> False | Some x \<Rightarrow> (case b of None \<Rightarrow> False | Some y \<Rightarrow> x < y))"

definition nan_le :: "num \<Rightarrow> num \<Rightarrow> bool" where
  "nan_le a b = (case a of None \<Rightarrow> False | Some x \<Rightarrow> (case b of None \<Rightarrow> False | Some y \<Rightarrow> x \<le> y))"

text \<open>\<^verbatim>\<open>data[data.index.isin(months)]\<close>: the rows whose index label is in \<open>months\<close>.\<close>

definition isin_rows :: "int list \<Rightarrow> 'a frame \<Rightarrow> 'a frame" where
  "isin_rows months data = filter (\<lambda>r. idx r \<in> set months) data"

subsection \<open>The local variables of the classifier\<close>

definition min_monthly_temp :: "'a frame \<Rightarrow> num" where
  "min_monthly_temp data = series_min (map tavg data)"

definition avg_monthly_temp :: "'a frame \<Rightarrow> num" where
  "avg_monthly_temp data = series_mean (map tavg data)"

definition max_monthly_temp :: "'a frame \<Rightarrow> num" where
  "max_monthly_temp data = series_max (map tavg data)"

definition yearly_prcp :: "'a frame \<Rightarrow> num" where
  "yearly_prcp data = series_sum (map prcp data)"

definition northern_summer_months :: "int list" where
  "northern_summer_months = [4, 5, 6, 7, 8, 9]"

definition northern_winter_months :: "int list" where
  "northern_winter_months = [1, 2, 3, 10, 11, 12]"

definition northern_summer_mean :: "'a frame \<Rightarrow> num" where
  "northern_summer_mean data = series_mean (map tavg (isin_rows northern_summer_months data))"

definition northern_winter_mean :: "'a frame \<Rightarrow> num" where
  "northern_winter_mean data = series_mean (map tavg (isin_rows northern_winter_months data))"

definition summer_months :: "'a frame \<Rightarrow> int list" where
  "summer_months data =
     (if nan_ge (northern_summer_mean data) (northern_winter_mean data)
      then northern_summer_months else northern_winter_months)"

definition winter_months :: "'a frame \<Rightarrow> int list" where
  "winter_months data =
     (if nan_ge (northern_summer_mean data) (northern_winter_mean data)
      then northern_winter_months else northern_summer_months)"

definition summer_data :: "'a frame \<Rightarrow> 'a frame" where
  "summer_data data = isin_rows (summer_months data) data"

definition winter_data :: "'a frame \<Rightarrow> 'a frame" where
  "winter_data data = isin_rows (winter_months data) data"

definition summer_prcp :: "'a frame \<Rightarrow> num" where
  "summer_prcp data = series_sum (map prcp (summer_data data))"

definition winter_prcp :: "'a frame \<Rightarrow> num" where
  "winter_prcp data = series_sum (map prcp (winter_data data))"

definition prcp_threshold :: "'a frame \<Rightarrow> num" where
  "prcp_threshold data =
     (let prcp_threshold = nan_mul (Some 20) (avg_monthly_temp data) in
      if nan_ge (summer_prcp data) (nan_mul (Some (7 / 10)) (yearly_prcp data))
      then nan_add prcp_threshold (Some 280)
      else if nan_lt (winter_prcp data) (nan_mul (Some (7 / 10)) (yearly_prcp data))
      then nan_add prcp_threshold (Some 140)
      else prcp_threshold)"

definition min_monthly_prcp :: "'a frame \<Rightarrow> num" where
  "min_monthly_prcp data = series_min (map prcp data)"

definition tropical_rain_ratio :: "'a frame \<Rightarrow> num" where
  "tropical_rain_ratio data = nan_sub (Some 100) (nan_mul (Some (1 / 25)) (yearly_prcp data))"

definition driest_summer_month :: "'a frame \<Rightarrow> num" where
  "driest_summer_month data = series_min (map prcp (summer_data data))"

definition wettest_summer_month :: "'a frame \<Rightarrow> num" where
  "wettest_summer_month data = series_max (map prcp (summer_data data))"

definition driest_winter_month :: "'a frame \<Rightarrow> num" where
  "driest_winter_month data = series_min (map prcp (winter_data data))"

definition wettest_winter_month :: "'a frame \<Rightarrow> num" where
  "wettest_winter_month data = series_max (map prcp (winter_data data))"

subsection \<open>The chain of climate types\<close>

text \<open>
  The \<^verbatim>\<open>if\<close>/\<^verbatim>\<open>elif\<close> chain of the source, giving the primary, secondary and tertiary
  label; the tertiary label starts as the empty string.
\<close>

definition labels :: "'a frame \<Rightarrow> rat \<Rightarrow> string \<times> string \<times> string" where
  "labels data isotherm =
     (if nan_lt (max_monthly_temp data) (Some 10) then
        (''E'', (if nan_ge (max_monthly_temp data) (Some 0) then ''T'' else ''F''), '''')
      else if nan_lt (yearly_prcp data) (prcp_threshold data) then
        (''B'',
         (if nan_lt (yearly_prcp data) (nan_half (prcp_threshold data)) then ''W'' else ''S''),
         (if nan_ge (avg_monthly_temp data) (Some 18) then ''h'' else ''k''))
      else if nan_ge (min_monthly_temp data) (Some 18) then
        (''A'',
         (if nan_ge (min_monthly_prcp data) (Some 60) then ''f''
          else if nan_ge (min_monthly_prcp data) (tropical_rain_ratio data) then ''m''
          else ''w''),
         '''')
      else
        (let primary_label = (if nan_ge (min_monthly_temp data) (Some isotherm) then ''C'' else ''D'')
         in (primary_label,
             (if nan_ge (wettest_summer_month data)
                   (nan_mul (Some 10) (driest_winter_month data)) then ''w''
              else if nan_ge (wettest_winter_month data)
                        (nan_mul (Some 3) (driest_summer_month data))
                      \<and> nan_lt (driest_summer_month data)
                          (Some (if primary_label = ''C'' then 40 else 30)) then ''s''
              else ''f''),
             (if 4 \<le> series_gt_count (map tavg data) 10 then
                (if nan_ge (max_monthly_temp data) (Some 22) then ''a'' else ''b'')
              else if nan_le (min_monthly_temp data) (Some (- 38)) then ''d''
              else ''c''))))"

definition primary_label :: "'a frame \<Rightarrow> rat \<Rightarrow> string" where
  "primary_label data isotherm = fst (labels data isotherm)"

definition secondary_label :: "'a frame \<Rightarrow> rat \<Rightarrow> string" where
  "secondary_label data isotherm = fst (snd (labels data isotherm))"

definition tertiary_label :: "'a frame \<Rightarrow> rat \<Rightarrow> string" where
  "tertiary_label data isotherm = snd (snd (labels data isotherm))"

definition climate_classification :: "'a frame \<Rightarrow> rat \<Rightarrow> string" where
  "climate_classification data isotherm =
     primary_label data isotherm @ secondary_label data isotherm @ tertiary_label data isotherm"

subsection \<open>The result\<close>

text \<open>The returned Series, one field for each of its six entries.\<close>

record koppen_result =
  koppen_climate_classification :: string
  res_min_monthly_temp :: num
  res_avg_monthly_temp :: num
  res_max_monthly_temp :: num
  res_precipitation_threshold :: num
  res_yearly_precipitation :: num

definition calculate_koppen_climate_from_normals :: "'a frame \<Rightarrow> rat \<Rightarrow> koppen_result" where
  "calculate_koppen_climate_from_normals data isotherm =
     \<lparr> koppen_climate_classification = climate_classification data isotherm,
       res_min_monthly_temp = min_monthly_temp data,
       res_avg_monthly_temp = avg_monthly_temp data,
       res_max_monthly_temp = max_monthly_temp data,
       res_precipitation_threshold = prcp_threshold data,
       res_yearly_precipitation = yearly_prcp data \<rparr>"

text \<open>The default of the \<^verbatim>\<open>isotherm\<close> parameter.\<close>

definition isotherm_default :: rat where
  "isotherm_default = 0"

subsection \<open>The caller's guard in \<^verbatim>\<open>update_markers\<close>\<close>




subsection \<open>The classifier on a store of frames\<close>

text \<open>
  To speak about the caller's frame after the call, frames live in a store and are named by
  their address. The classifier never assigns to a frame: its only effects on the store are
  the four new frames that boolean-mask indexing creates (the two northern selections, then
  \<^verbatim>\<open>summer_data\<close> and \<^verbatim>\<open>winter_data\<close>). Every other step reads.
\<close>

type_synonym 'a store = "'a frame list"

definition alloc :: "'a store \<Rightarrow> 'a frame \<Rightarrow> 'a store \<times> nat" where
  "alloc h f = (h @ [f], length h)"

definition calculate_koppen_climate_from_normals_store ::
    "'a store \<Rightarrow> nat \<Rightarrow> rat \<Rightarrow> 'a store \<times> koppen_result" where
  "calculate_koppen_climate_from_normals_store h data isotherm =
     (let (h1, northern_summer) = alloc h (isin_rows northern_summer_months (h ! data));
          (h2, northern_winter) = alloc h1 (isin_rows northern_winter_months (h1 ! data));
          (h3, summer) = alloc h2 (isin_rows (summer_months (h2 ! data)) (h2 ! data));
          (h4, winter) = alloc h3 (isin_rows (winter_months (h3 ! data)) (h3 ! data))
      in (h4, calculate_koppen_climate_from_normals (h4 ! data) isotherm))"

subsection \<open>Complete records, month by month\<close>

text \<open>
  A complete record has exactly one row for each month 1 to 12, each with an average
  temperature and a precipitation. For such a record the values are functions of the month.
\<close>

definition valid_record :: "'a frame \<Rightarrow> bool" where
  "valid_record data \<longleftrightarrow>
     distinct (map idx data) \<and> set (map idx data) = {1..12} \<and>
     (\<forall>r \<in> set data. tavg r \<noteq> None \<and> prcp r \<noteq> None)"

definition row_at :: "'a frame \<Rightarrow> int \<Rightarrow> 'a row_scheme" where
  "row_at data m = the (find (\<lambda>r. idx r = m) data)"

definition temp_at :: "'a frame \<Rightarrow> int \<Rightarrow> rat" where
  "temp_at data m = the (tavg (row_at data m))"

definition rain_at :: "'a frame \<Rightarrow> int \<Rightarrow> rat" where
  "rain_at data m = the (prcp (row_at data m))"


subsection \<open>Sample records\<close>

definition monthly_record :: "rat list \<Rightarrow> rat list \<Rightarrow> row list" where
  "monthly_record ts ps =
     map (\<lambda>(m, t, p). \<lparr> idx = m, tavg = Some t, prcp = Some p \<rparr>)
       (zip [1, 2, 3, 4, 5, 6, 7, 8, 9, 10, 11, 12] (zip ts ps))"

definition tropical_record :: "row list" where
  "tropical_record = monthly_record (replicate 12 25) (replicate 12 100)"

definition icecap_record :: "row list" where
  "icecap_record = monthly_record (replicate 12 (- 10)) [5, 4, 6, 8, 10, 15, 20, 18, 12, 9, 7, 5]"

definition northern_record :: "row list" where
  "northern_record =
     monthly_record [- 3, - 1, 3, 8, 13, 17, 20, 19, 15, 9, 4, 0]
                    [40, 35, 45, 50, 60, 70, 80, 75, 65, 55, 50, 45]"


definition boundary_record :: "row list" where
  "boundary_record =
     monthly_record [- 5, - 4, - 1, 2, 5, 8, 10, 9, 6, 2, - 2, - 4] (replicate 12 30)"





section \<open>The literal tropical scenario\<close>

text \<open>
  Claim C9. The record with every month at average temperature 25 and precipitation 100
  (1200 mm a year), classified with the default isotherm, gives the code \<open>Af\<close>: the warmest
  month is not below 10, so it is not polar; the threshold is \<open>20 * 25 + 140 = 640\<close> and 1200
  is not below it, so it is not arid; the coldest month, 25, is at least 18, so it is
  tropical; the driest month, 100, is at least 60, so the secondary label is \<open>f\<close>, and the
  tertiary label is empty.
\<close>

theorem tropical_record_is_Af:
  "calculate_koppen_climate_from_normals tropical_record isotherm_default =
     \<lparr> koppen_climate_classification = ''Af'',
       res_min_monthly_temp = Some 25,
       res_avg_monthly_temp = Some 25,
       res_max_monthly_temp = Some 25,
       res_precipitation_threshold = Some 640,
       res_yearly_precipitation = Some 1200 \<rparr>
   \<and> map (\<lambda>r. (idx r, tavg r, prcp r)) tropical_record =
       map (\<lambda>m. (m, Some 25, Some 100)) [1, 2, 3, 4, 5, 6, 7, 8, 9, 10, 11, 12]
   \<and> \<not> nan_lt (max_monthly_temp tropical_record) (Some 10)
   \<and> \<not> nan_lt (yearly_prcp tropical_record) (prcp_threshold tropical_record)
   \<and> nan_ge (min_monthly_temp tropical_record) (Some 18)
   \<and> min_monthly_prcp tropical_record = Some 100
   \<and> nan_ge (min_monthly_prcp tropical_record) (Some 60)
   \<and> labels tropical_record isotherm_default = (''A'', ''f'', [])"
  by code_simp

section \<open>Complete records: the local variables month by month\<close>

text \<open>
  In a complete record every month has one row, so a selection by months sums, counts and
  ranges over the months themselves.
\<close>

lemma find_idx:
  "distinct (map idx d) \<Longrightarrow> r \<in> set d \<Longrightarrow> find (\<lambda>x. idx x = idx r) d = Some r"
  by (induction d) auto

lemma row_at_idx: "distinct (map idx d) \<Longrightarrow> r \<in> set d \<Longrightarrow> row_at d (idx r) = r"
  by (simp add: row_at_def find_idx)

lemma present_all:
  "\<forall>x \<in> set xs. x \<noteq> None \<Longrightarrow> present xs = map the xs"
  by (simp add: present_def)

lemma isin_image:
  assumes "distinct (map idx d)" "set ms \<subseteq> idx ` set d"
  shows "idx ` set (isin_rows ms d) = set ms"
  using assms by (auto simp: isin_rows_def)

lemma isin_sum:
  assumes "distinct (map idx d)" "set ms \<subseteq> idx ` set d"
  shows "sum_list (map g (isin_rows ms d)) = (\<Sum>m\<in>set ms. g (row_at d m))"
proof -
  let ?A = "set (isin_rows ms d)"
  have dd: "distinct d" using assms(1) by (rule distinct_map [THEN iffD1, THEN conjunct1])
  have sub: "?A \<subseteq> set d" by (auto simp: isin_rows_def)
  have inj: "inj_on idx ?A"
    using assms(1) sub by (meson distinct_map inj_on_subset)
  have "sum_list (map g (isin_rows ms d)) = sum g ?A"
    using dd by (simp add: sum_list_distinct_conv_sum_set isin_rows_def)
  also have "\<dots> = sum (\<lambda>r. g (row_at d (idx r))) ?A"
    using sub assms(1) by (intro sum.cong) (auto simp: row_at_idx)
  also have "\<dots> = sum (\<lambda>m. g (row_at d m)) (idx ` ?A)"
    using inj by (simp add: sum.reindex)
  finally show ?thesis using isin_image [OF assms] by simp
qed

lemma isin_set:
  assumes "distinct (map idx d)" "set ms \<subseteq> idx ` set d"
  shows "set (map g (isin_rows ms d)) = (\<lambda>m. g (row_at d m)) ` set ms"
proof -
  let ?A = "set (isin_rows ms d)"
  have sub: "?A \<subseteq> set d" by (auto simp: isin_rows_def)
  have "g ` ?A = (\<lambda>r. g (row_at d (idx r))) ` ?A"
    using sub assms(1) by (intro image_cong) (auto simp: row_at_idx)
  also have "\<dots> = (\<lambda>m. g (row_at d m)) ` (idx ` ?A)"
    by (simp add: image_image)
  finally show ?thesis using isin_image [OF assms] by simp
qed

lemma isin_length:
  assumes "distinct (map idx d)" "set ms \<subseteq> idx ` set d"
  shows "length (isin_rows ms d) = card (set ms)"
proof -
  let ?A = "set (isin_rows ms d)"
  have dd: "distinct d" using assms(1) by (rule distinct_map [THEN iffD1, THEN conjunct1])
  have sub: "?A \<subseteq> set d" by (auto simp: isin_rows_def)
  have inj: "inj_on idx ?A"
    using assms(1) sub by (meson distinct_map inj_on_subset)
  have "length (isin_rows ms d) = card ?A"
    using dd distinct_card [of "isin_rows ms d"] by (simp add: isin_rows_def)
  also have "\<dots> = card (idx ` ?A)" using inj by (simp add: card_image)
  finally show ?thesis using isin_image [OF assms] by simp
qed

lemma isin_all: "idx ` set d \<subseteq> set ms \<Longrightarrow> isin_rows ms d = d"
  unfolding isin_rows_def by (rule filter_True) auto

lemma present_col:
  assumes "\<forall>r \<in> set d. c r \<noteq> None"
  shows "present (map c (isin_rows ms d)) = map (\<lambda>r. the (c r)) (isin_rows ms d)"
proof -
  have "\<forall>x \<in> set (map c (isin_rows ms d)). x \<noteq> None"
    using assms by (auto simp: isin_rows_def)
  then show ?thesis by (simp add: present_all comp_def)
qed

lemma isin_nonempty:
  assumes "distinct (map idx d)" "set ms \<subseteq> idx ` set d" "ms \<noteq> []"
  shows "isin_rows ms d \<noteq> []"
  using isin_length [OF assms(1,2)] assms(3) by (auto simp: card_eq_0_iff)

lemma series_sum_isin:
  assumes "distinct (map idx d)" "set ms \<subseteq> idx ` set d" "\<forall>r \<in> set d. c r \<noteq> None"
  shows "series_sum (map c (isin_rows ms d)) = Some (\<Sum>m\<in>set ms. the (c (row_at d m)))"
  by (simp add: series_sum_def present_col [OF assms(3)] isin_sum [OF assms(1,2)])

lemma series_mean_isin:
  assumes "distinct (map idx d)" "set ms \<subseteq> idx ` set d" "\<forall>r \<in> set d. c r \<noteq> None"
    and "ms \<noteq> []"
  shows "series_mean (map c (isin_rows ms d)) =
         Some ((\<Sum>m\<in>set ms. the (c (row_at d m))) / of_nat (card (set ms)))"
  using isin_nonempty [OF assms(1,2,4)]
  by (simp add: series_mean_def present_col [OF assms(3)] isin_sum [OF assms(1,2)]
      isin_length [OF assms(1,2)])

lemma series_min_isin:
  assumes "distinct (map idx d)" "set ms \<subseteq> idx ` set d" "\<forall>r \<in> set d. c r \<noteq> None"
    and "ms \<noteq> []"
  shows "series_min (map c (isin_rows ms d)) = Some (Min ((\<lambda>m. the (c (row_at d m))) ` set ms))"
  using isin_nonempty [OF assms(1,2,4)] isin_set [OF assms(1,2), of "\<lambda>r. the (c r)"]
  by (simp add: series_min_def present_col [OF assms(3)])

lemma series_max_isin:
  assumes "distinct (map idx d)" "set ms \<subseteq> idx ` set d" "\<forall>r \<in> set d. c r \<noteq> None"
    and "ms \<noteq> []"
  shows "series_max (map c (isin_rows ms d)) = Some (Max ((\<lambda>m. the (c (row_at d m))) ` set ms))"
  using isin_nonempty [OF assms(1,2,4)] isin_set [OF assms(1,2), of "\<lambda>r. the (c r)"]
  by (simp add: series_max_def present_col [OF assms(3)])

lemma valid_whole: "valid_record d \<Longrightarrow> isin_rows [1..12] d = d"
  by (rule isin_all) (simp add: valid_record_def)

lemma valid_sub: "valid_record d \<Longrightarrow> set ms \<subseteq> {1..12} \<Longrightarrow> set ms \<subseteq> idx ` set d"
  by (simp add: valid_record_def)





lemma northern_sub:
  "set northern_summer_months \<subseteq> {1..12}" "set northern_winter_months \<subseteq> {1..12}"
  by (simp_all add: northern_summer_months_def northern_winter_months_def)


lemma valid_distinct: "valid_record d \<Longrightarrow> distinct (map idx d)"
  by (simp add: valid_record_def)

lemma valid_tavg: "valid_record d \<Longrightarrow> \<forall>r \<in> set d. tavg r \<noteq> None"
  by (simp add: valid_record_def)

lemma valid_prcp: "valid_record d \<Longrightarrow> \<forall>r \<in> set d. prcp r \<noteq> None"
  by (simp add: valid_record_def)

lemma min_monthly_temp_valid:
  assumes "valid_record d"
  shows "min_monthly_temp d = Some (Min (temp_at d ` {1..12}))"
  using series_min_isin [OF valid_distinct [OF assms] valid_sub [OF assms] valid_tavg [OF assms],
      of "[1..12]"]
  by (simp add: valid_whole [OF assms] min_monthly_temp_def temp_at_def)

lemma max_monthly_temp_valid:
  assumes "valid_record d"
  shows "max_monthly_temp d = Some (Max (temp_at d ` {1..12}))"
  using series_max_isin [OF valid_distinct [OF assms] valid_sub [OF assms] valid_tavg [OF assms],
      of "[1..12]"]
  by (simp add: valid_whole [OF assms] max_monthly_temp_def temp_at_def)

lemma avg_monthly_temp_valid:
  assumes "valid_record d"
  shows "avg_monthly_temp d = Some ((\<Sum>m\<in>{1..12}. temp_at d m) / 12)"
  using series_mean_isin [OF valid_distinct [OF assms] valid_sub [OF assms] valid_tavg [OF assms],
      of "[1..12]"]
  by (simp add: valid_whole [OF assms] avg_monthly_temp_def temp_at_def)

lemma yearly_prcp_valid:
  assumes "valid_record d"
  shows "yearly_prcp d = Some (\<Sum>m\<in>{1..12}. rain_at d m)"
  using series_sum_isin [OF valid_distinct [OF assms] valid_sub [OF assms] valid_prcp [OF assms],
      of "[1..12]"]
  by (simp add: valid_whole [OF assms] yearly_prcp_def rain_at_def)

lemma min_monthly_prcp_valid:
  assumes "valid_record d"
  shows "min_monthly_prcp d = Some (Min (rain_at d ` {1..12}))"
  using series_min_isin [OF valid_distinct [OF assms] valid_sub [OF assms] valid_prcp [OF assms],
      of "[1..12]"]
  by (simp add: valid_whole [OF assms] min_monthly_prcp_def rain_at_def)




lemma summer_months_sub: "set (summer_months d) \<subseteq> {1..12}"
  using northern_sub by (simp add: summer_months_def)

lemma winter_months_sub: "set (winter_months d) \<subseteq> {1..12}"
  using northern_sub by (simp add: winter_months_def)




lemma summer_prcp_valid:
  assumes "valid_record d"
  shows "summer_prcp d = Some (\<Sum>m\<in>set (summer_months d). rain_at d m)"
  using series_sum_isin [OF valid_distinct [OF assms] valid_sub [OF assms summer_months_sub]
      valid_prcp [OF assms]]
  by (simp add: summer_prcp_def summer_data_def rain_at_def)

lemma winter_prcp_valid:
  assumes "valid_record d"
  shows "winter_prcp d = Some (\<Sum>m\<in>set (winter_months d). rain_at d m)"
  using series_sum_isin [OF valid_distinct [OF assms] valid_sub [OF assms winter_months_sub]
      valid_prcp [OF assms]]
  by (simp add: winter_prcp_def winter_data_def rain_at_def)






lemma prcp_threshold_valid:
  assumes "valid_record d"
  shows "prcp_threshold d =
         Some (20 * ((\<Sum>m\<in>{1..12}. temp_at d m) / 12) +
               (if 7 / 10 * (\<Sum>m\<in>{1..12}. rain_at d m) \<le> (\<Sum>m\<in>set (summer_months d). rain_at d m)
                then 280
                else if (\<Sum>m\<in>set (winter_months d). rain_at d m) < 7 / 10 * (\<Sum>m\<in>{1..12}. rain_at d m)
                then 140 else 0))"
  by (simp add: prcp_threshold_def avg_monthly_temp_valid [OF assms] yearly_prcp_valid [OF assms]
      summer_prcp_valid [OF assms] winter_prcp_valid [OF assms]
      nan_mul_def nan_add_def nan_ge_def nan_lt_def)


lemma primary_label_cases:
  "primary_label d isotherm =
     (if nan_lt (max_monthly_temp d) (Some 10) then ''E''
      else if nan_lt (yearly_prcp d) (prcp_threshold d) then ''B''
      else if nan_ge (min_monthly_temp d) (Some 18) then ''A''
      else if nan_ge (min_monthly_temp d) (Some isotherm) then ''C'' else ''D'')"
  by (simp add: primary_label_def labels_def Let_def)

lemma length_primary_label: "length (primary_label d isotherm) = 1"
  by (simp add: primary_label_cases)

lemma take1_classification: "take 1 (climate_classification d isotherm) = primary_label d isotherm"
  using length_primary_label [of d isotherm] by (simp add: climate_classification_def)

lemma primary_label_valid:
  assumes "valid_record d" and "prcp_threshold d = Some thr"
  shows "primary_label d isotherm =
     (if Max (temp_at d ` {1..12}) < 10 then ''E''
      else if (\<Sum>m\<in>{1..12}. rain_at d m) < thr then ''B''
      else if 18 \<le> Min (temp_at d ` {1..12}) then ''A''
      else if isotherm \<le> Min (temp_at d ` {1..12}) then ''C'' else ''D'')"
  by (simp add: primary_label_cases max_monthly_temp_valid [OF assms(1)]
      min_monthly_temp_valid [OF assms(1)] yearly_prcp_valid [OF assms(1)] assms(2)
      nan_lt_def nan_ge_def)

section \<open>The primary letter\<close>



section \<open>Summer and winter\<close>





section \<open>The three aridity adjustments\<close>








section \<open>Polar climates\<close>


lemma classification_parts:
  "climate_classification d isotherm =
     primary_label d isotherm @ secondary_label d isotherm @ tertiary_label d isotherm"
  by (simp add: climate_classification_def)


lemma result_code:
  "koppen_climate_classification (calculate_koppen_climate_from_normals d isotherm) =
     climate_classification d isotherm"
  by (simp add: calculate_koppen_climate_from_normals_def)

lemma labels_polar:
  assumes "valid_record d" and "Max (temp_at d ` {1..12}) < 10"
  shows "labels d isotherm =
           (''E'', (if 0 \<le> Max (temp_at d ` {1..12}) then ''T'' else ''F''), [])"
  using assms(2)
  by (simp add: labels_def max_monthly_temp_valid [OF assms(1)] nan_lt_def nan_ge_def)

lemma classification_polar:
  assumes "valid_record d" and "Max (temp_at d ` {1..12}) < 10"
  shows "climate_classification d isotherm =
           (if 0 \<le> Max (temp_at d ` {1..12}) then ''ET'' else ''EF'')"
  by (simp add: climate_classification_def primary_label_def secondary_label_def
      tertiary_label_def labels_polar [OF assms])

text \<open>
  Claim C6. A complete record is classified polar (first letter E) exactly when its warmest
  monthly mean is strictly below 10, so a record whose warmest month is exactly 10 is not
  polar. Within E the secondary label is T when the warmest month is at least 0 and F
  otherwise, and the tertiary label is empty; a record with every month at \<open>-10\<close> gets the
  two-letter code EF.
\<close>

theorem polar_classification:
  assumes "valid_record d"
  shows "let code = koppen_climate_classification
                      (calculate_koppen_climate_from_normals d isotherm);
             tmax = Max (temp_at d ` {1..12})
         in (take 1 code = ''E'' \<longleftrightarrow> tmax < 10) \<and>
            (tmax = 10 \<longrightarrow> take 1 code \<noteq> ''E'') \<and>
            (tmax < 10 \<longrightarrow>
               labels d isotherm = (''E'', (if 0 \<le> tmax then ''T'' else ''F''), []) \<and>
               code = (if 0 \<le> tmax then ''ET'' else ''EF'')) \<and>
            ((\<forall>m \<in> {1..12}. temp_at d m = - 10) \<longrightarrow> code = ''EF'')"
proof -
  let ?tmax = "Max (temp_at d ` {1..12})"
  obtain thr where thr: "prcp_threshold d = Some thr"
    using prcp_threshold_valid [OF assms] by blast
  have iff: "take 1 (climate_classification d isotherm) = ''E'' \<longleftrightarrow> ?tmax < 10"
    unfolding take1_classification primary_label_valid [OF assms thr] by simp
  have pol: "?tmax < 10 \<Longrightarrow>
               labels d isotherm = (''E'', (if 0 \<le> ?tmax then ''T'' else ''F''), []) \<and>
               climate_classification d isotherm = (if 0 \<le> ?tmax then ''ET'' else ''EF'')"
    using labels_polar [OF assms] classification_polar [OF assms] by blast
  have ten: "climate_classification d isotherm = ''EF''"
    if all: "\<forall>m \<in> {1..12}. temp_at d m = - 10"
  proof -
    have "temp_at d ` {1..12} = (\<lambda>m. - 10) ` {1..12::int}"
      by (rule image_cong [OF refl]) (simp add: all)
    then have "temp_at d ` {1..12} = {- 10}" by (simp add: image_constant_conv)
    then have "?tmax = - 10" by simp
    then show ?thesis using classification_polar [OF assms, of isotherm] by simp
  qed
  have bnd: "?tmax = 10 \<Longrightarrow> \<not> ?tmax < 10" by (simp only: less_irrefl not_False_eq_True)
  show ?thesis
    unfolding Let_def result_code using iff pol ten bnd by blast
qed

theorem polar_classification_witness:
  "valid_record icecap_record \<and>
   temp_at icecap_record ` {1..12} = {- 10} \<and>
   koppen_climate_classification (calculate_koppen_climate_from_normals icecap_record 0) = ''EF'' \<and>
   valid_record boundary_record \<and>
   Max (temp_at boundary_record ` {1..12}) = 10 \<and>
   take 1 (koppen_climate_classification
             (calculate_koppen_climate_from_normals boundary_record 0)) \<noteq> ''E''"
proof -
  have h: "valid_record icecap_record" by code_simp
  have a: "\<forall>m \<in> {1..12}. temp_at icecap_record m = - 10" by code_simp
  have h': "valid_record boundary_record" by code_simp
  have b: "Max (temp_at boundary_record ` {1..12}) = 10" by code_simp
  have i: "temp_at icecap_record ` {1..12} = {- 10}" by code_simp
  have ef: "koppen_climate_classification
              (calculate_koppen_climate_from_normals icecap_record 0) = ''EF''"
    using a polar_classification [OF h, of 0] unfolding Let_def by blast
  have ne: "take 1 (koppen_climate_classification
                      (calculate_koppen_climate_from_normals boundary_record 0)) \<noteq> ''E''"
    using b polar_classification [OF h', of 0] unfolding Let_def by blast
  show ?thesis
    using h i ef h' b ne by blast
qed

section \<open>Temperate and continental climates\<close>







section \<open>Incomplete records\<close>






section \<open>The caller's frame after the call\<close>

text \<open>
  Claim C10. The classifier leaves its input unchanged: in the store after the call, the
  frame at the caller's address (all its rows, with every column) and every other frame
  that existed before are as they were; the call only adds the four selections it makes.
  The result is the classification of that unchanged frame.
\<close>

theorem input_frame_unchanged:
  assumes "data < length h"
  shows "let (h', r) = calculate_koppen_climate_from_normals_store h data isotherm
         in h' ! data = h ! data \<and>
            (\<forall>a < length h. h' ! a = h ! a) \<and>
            length h' = length h + 4 \<and>
            r = calculate_koppen_climate_from_normals (h ! data) isotherm"
  using assms
  by (simp add: calculate_koppen_climate_from_normals_store_def alloc_def nth_append Let_def)

theorem input_frame_unchanged_witness:
  "(1::nat) < length [tropical_record, northern_record] \<and>
   fst (calculate_koppen_climate_from_normals_store [tropical_record, northern_record] 1 0) ! 1
     = northern_record \<and>
   fst (calculate_koppen_climate_from_normals_store [tropical_record, northern_record] 1 0) ! 0
     = tropical_record \<and>
   length (fst (calculate_koppen_climate_from_normals_store [tropical_record, northern_record] 1 0))
     = 6 \<and>
   koppen_climate_classification
     (snd (calculate_koppen_climate_from_normals_store [tropical_record, northern_record] 1 0))
     = ''Dfb''"
proof -
  have l: "(1::nat) < length [tropical_record, northern_record]" by simp
  have c: "koppen_climate_classification
             (calculate_koppen_climate_from_normals northern_record 0) = ''Dfb''"
    by code_simp
  show ?thesis
    using l c input_frame_unchanged [OF l, of 0]
    by (simp add: case_prod_beta Let_def)
qed

end
